theory Spec2Isabelle
  imports Main
begin

section \<open>Domain objects of geometry.py\<close>

text \<open>
  \<^verbatim>\<open>PyMecObject\<close> carries a uid (the hex form of a fresh \<^verbatim>\<open>uuid4\<close>) and a name.
  The subclasses add their fields to it. The type variable \<open>'a\<close> stands for the
  values of the coordinates (Python floats, \<^verbatim>\<open>float(i)\<close> in \<^verbatim>\<open>Vector.__init__\<close>);
  the definitions below only ever compare coordinates, they do no arithmetic on them.
\<close>

record pymec_object =
  uid :: string
  name :: string

record 'a vector = pymec_object +
  coordinates :: "'a list"

record 'a point = pymec_object +
  position :: "'a vector"

record 'a segment = pymec_object +
  start_point :: "'a point"
  end_point :: "'a point"

record 'a contour = pymec_object +
  segment_list :: "'a segment list"

text \<open>
  A workspace holds instances of \<^verbatim>\<open>PyMecObject\<close> and of any of its subclasses;
  the class of an instance is the constructor.
\<close>

datatype 'a pymec =
    Obj pymec_object
  | Vec "'a vector"
  | Pnt "'a point"
  | Seg "'a segment"
  | Cnt "'a contour"

fun uid_of :: "'a pymec \<Rightarrow> string" where
  "uid_of (Obj x) = uid x"
| "uid_of (Vec x) = uid x"
| "uid_of (Pnt x) = uid x"
| "uid_of (Seg x) = uid x"
| "uid_of (Cnt x) = uid x"

fun name_of :: "'a pymec \<Rightarrow> string" where
  "name_of (Obj x) = name x"
| "name_of (Vec x) = name x"
| "name_of (Pnt x) = name x"
| "name_of (Seg x) = name x"
| "name_of (Cnt x) = name x"

text \<open>
  An argument of \<^verbatim>\<open>PyMecSession.append\<close>: an instance of \<^verbatim>\<open>PyMecObject\<close>, or any
  other Python value, which \<^verbatim>\<open>isinstance\<close> rejects.
\<close>

datatype 'a pyvalue = PyMec "'a pymec" | NotPyMec

text \<open>\<^verbatim>\<open>Vector.__eq__\<close>: the coordinate lists are equal.\<close>

definition vector_eq :: "'a vector \<Rightarrow> 'a vector \<Rightarrow> bool" where
  "vector_eq v w = (coordinates v = coordinates w)"

section \<open>The session\<close>

text \<open>
  The exceptions the session raises. \<^verbatim>\<open>FileExistsError\<close> is raised both by
  \<^verbatim>\<open>save_to_file\<close> (the target exists) and by \<^verbatim>\<open>load_file\<close> (the workspace is not
  empty); \<^verbatim>\<open>KeyError\<close> comes from \<^verbatim>\<open>self.__header['filename']\<close>; \<^verbatim>\<open>TypeError\<close> from
  \<^verbatim>\<open>append\<close> (not a PyMecObject), from \<^verbatim>\<open>load_file\<close> (not three parts), from
  \<^verbatim>\<open>open\<close> on a value that is no path, and from \<^verbatim>\<open>result[0]\<close> in \<^verbatim>\<open>delete\<close> when
  \<^verbatim>\<open>search_by_uid\<close> returned \<^verbatim>\<open>None\<close>; \<^verbatim>\<open>ValueError\<close> from \<^verbatim>\<open>max\<close> of an empty list;
  \<^verbatim>\<open>AttributeError\<close> from \<^verbatim>\<open>filepath.exists()\<close> on a value that is no
  \<^verbatim>\<open>pathlib.Path\<close>; \<^verbatim>\<open>IndexError\<close> from an index out of range.
\<close>

datatype error =
    TypeError
  | ValueError
  | KeyError
  | AttributeError
  | IndexError
  | FileExistsError
  | FileNotFoundError

text \<open>
  Values of the header dictionary: a \<^verbatim>\<open>pathlib.Path\<close> (as \<^verbatim>\<open>save_to_file\<close> stores
  under \<^verbatim>\<open>'filename'\<close>), a \<^verbatim>\<open>datetime\<close> (under \<^verbatim>\<open>'savedate'\<close>, a point in time as a
  number), or a string (what a caller puts there with \<^verbatim>\<open>add_to_header\<close>).
\<close>

datatype hvalue = HPath string | HDate nat | HStr string

type_synonym header = "string \<rightharpoonup> hvalue"

record 'a session =
  workspace :: "'a pymec list"
  header_common :: header
  header :: header

text \<open>\<^verbatim>\<open>PyMecSession.__init__\<close>, with \<^verbatim>\<open>__version__ = '0.0.1'\<close>.\<close>

definition PyMecSession :: "'a session" where
  "PyMecSession =
     \<lparr>workspace = [],
      header_common = [''pyMec version'' \<mapsto> HStr ''0.0.1''],
      header = Map.empty\<rparr>"

text \<open>
  A method that mutates the session returns the exception it raised, if any, and the
  session as the call leaves it: a call that raises may have changed the session
  before.
\<close>

definition append :: "'a session \<Rightarrow> 'a pyvalue \<Rightarrow> error option \<times> 'a session" where
  "append s v =
     (case v of
        NotPyMec \<Rightarrow> (Some TypeError, s)
      | PyMec obj \<Rightarrow> (None, s\<lparr>workspace := workspace s @ [obj]\<rparr>))"

text \<open>
  \<^verbatim>\<open>search_by_uid\<close>: the loop over \<^verbatim>\<open>enumerate(self.__workspace)\<close> returns at the
  first object with the uid; \<^verbatim>\<open>None\<close> when the loop ends.
\<close>

fun search_uid_loop :: "(nat \<times> 'a pymec) list \<Rightarrow> string \<Rightarrow> ('a pymec \<times> nat) list option" where
  "search_uid_loop [] u = None"
| "search_uid_loop ((i, obj) # rest) u =
     (if uid_of obj = u then Some [(obj, i)] else search_uid_loop rest u)"

definition search_by_uid :: "'a session \<Rightarrow> string \<Rightarrow> ('a pymec \<times> nat) list option" where
  "search_by_uid s u = search_uid_loop (enumerate 0 (workspace s)) u"

text \<open>\<^verbatim>\<open>list.pop(i)\<close> for an index \<open>i \<ge> 0\<close>: the list without its element \<open>i\<close>.\<close>

definition pop :: "'b list \<Rightarrow> nat \<Rightarrow> error + 'b list" where
  "pop xs i = (if i < length xs then Inr (take i xs @ drop (Suc i) xs) else Inl IndexError)"

text \<open>
  \<^verbatim>\<open>delete\<close>: \<^verbatim>\<open>result[0][1]\<close> raises \<^verbatim>\<open>TypeError\<close> when \<^verbatim>\<open>result\<close> is \<^verbatim>\<open>None\<close>
  (\<^verbatim>\<open>'NoneType' object is not subscriptable\<close>).
\<close>

definition delete :: "'a session \<Rightarrow> 'a pymec \<Rightarrow> error option \<times> 'a session" where
  "delete s obj =
     (case search_by_uid s (uid_of obj) of
        None \<Rightarrow> (Some TypeError, s)
      | Some [] \<Rightarrow> (Some IndexError, s)
      | Some ((x, i) # _) \<Rightarrow>
          (case pop (workspace s) i of
             Inl e \<Rightarrow> (Some e, s)
           | Inr ws \<Rightarrow> (None, s\<lparr>workspace := ws\<rparr>)))"

definition wipe_workspace :: "'a session \<Rightarrow> 'a session" where
  "wipe_workspace s = s\<lparr>workspace := []\<rparr>"

text \<open>Python's \<^verbatim>\<open>max\<close> of a list: \<^verbatim>\<open>ValueError\<close> on the empty list.\<close>

fun py_max :: "int list \<Rightarrow> error + int" where
  "py_max [] = Inl ValueError"
| "py_max (x # xs) = Inr (foldl (\<lambda>m y. if m < y then y else m) x xs)"

text \<open>
  \<^verbatim>\<open>search_by_name\<close>. \<^verbatim>\<open>fuzz.ratio\<close> belongs to the fuzzywuzzy package, not to this
  repository: it is the parameter \<open>ratio\<close>, a function from two strings to an integer.
\<close>

definition search_by_name ::
  "(string \<Rightarrow> string \<Rightarrow> int) \<Rightarrow> 'a session \<Rightarrow> string \<Rightarrow> error + ('a pymec \<times> nat) list" where
  "search_by_name ratio s nm =
     (let scores = map (\<lambda>obj. ratio (name_of obj) nm) (workspace s) in
      case py_max scores of
        Inl e \<Rightarrow> Inl e
      | Inr best \<Rightarrow>
          if best < 70 then Inr []
          else Inr (map (\<lambda>(i, x). (x, i))
                      (filter (\<lambda>(i, x). scores ! i = best) (enumerate 0 (workspace s)))))"

text \<open>\<^verbatim>\<open>add_to_header\<close>: \<^verbatim>\<open>dict.update\<close>, the argument's entries win.\<close>

definition add_to_header :: "'a session \<Rightarrow> header \<Rightarrow> 'a session" where
  "add_to_header s h = s\<lparr>header := header s ++ h\<rparr>"

subsection \<open>Saving and loading\<close>

text \<open>
  What \<^verbatim>\<open>pickle.load\<close> returns from a file: the list of three parts that
  \<^verbatim>\<open>save_to_file\<close> dumps (two dictionaries and a list of objects), or a pickled
  sequence of another length, for which \<^verbatim>\<open>len(loaded) != 3\<close> holds. \<^verbatim>\<open>pickle.load\<close> gives
  back a copy of what \<^verbatim>\<open>pickle.dump\<close> was given, uids and names included.
\<close>

datatype 'a pickled =
    Pickled3 header header "'a pymec list"
  | PickledOther

text \<open>
  The file system maps a path to the content of the file there. Directories and
  permissions are not part of it: \<^verbatim>\<open>mkdir(parents=True, exist_ok=True)\<close> and
  \<^verbatim>\<open>open(filepath, 'bw')\<close> succeed.
\<close>

type_synonym 'a filesystem = "string \<rightharpoonup> 'a pickled"

text \<open>
  \<^verbatim>\<open>save_to_file\<close>; \<open>now\<close> is the value of \<^verbatim>\<open>datetime.now()\<close>. The two header entries
  are written before the target is tested. \<^verbatim>\<open>filepath.exists()\<close> needs a
  \<^verbatim>\<open>pathlib.Path\<close>.
\<close>

definition save_to_file ::
  "'a session \<Rightarrow> 'a filesystem \<Rightarrow> nat \<Rightarrow> string option \<Rightarrow> bool
     \<Rightarrow> error option \<times> 'a session \<times> 'a filesystem" where
  "save_to_file s fs now filename overwrite =
     (case (case filename of
              None \<Rightarrow> header s ''filename''
            | Some f \<Rightarrow> Some (HPath f)) of
        None \<Rightarrow> (Some KeyError, s, fs)
      | Some filepath \<Rightarrow>
          (let s' = s\<lparr>header := (header s)(''filename'' \<mapsto> filepath, ''savedate'' \<mapsto> HDate now)\<rparr> in
           case filepath of
             HPath p \<Rightarrow>
               if fs p \<noteq> None \<and> \<not> overwrite then (Some FileExistsError, s', fs)
               else (None, s',
                     fs(p \<mapsto> Pickled3 (header_common s') (header s') (workspace s')))
           | HDate d \<Rightarrow> (Some AttributeError, s', fs)
           | HStr x \<Rightarrow> (Some AttributeError, s', fs)))"

text \<open>
  What \<^verbatim>\<open>open\<close> makes of its first argument: a path or a string names a file, a
  \<^verbatim>\<open>datetime\<close> is a \<^verbatim>\<open>TypeError\<close>.
\<close>

fun open_name :: "hvalue \<Rightarrow> error + string" where
  "open_name (HPath p) = Inr p"
| "open_name (HStr p) = Inr p"
| "open_name (HDate d) = Inl TypeError"

text \<open>
  \<^verbatim>\<open>load_file\<close>. The test of the workspace comes first. \<^verbatim>\<open>open(filepath, 'br')\<close>
  raises \<^verbatim>\<open>FileNotFoundError\<close> when there is no file.
\<close>

definition load_file ::
  "'a session \<Rightarrow> 'a filesystem \<Rightarrow> string option \<Rightarrow> bool \<Rightarrow> error option \<times> 'a session" where
  "load_file s fs filename overwrite =
     (if workspace s \<noteq> [] \<and> \<not> overwrite then (Some FileExistsError, s)
      else
        case (case filename of
                None \<Rightarrow> header s ''filename''
              | Some f \<Rightarrow> Some (HPath f)) of
          None \<Rightarrow> (Some KeyError, s)
        | Some filepath \<Rightarrow>
            (case open_name filepath of
               Inl e \<Rightarrow> (Some e, s)
             | Inr p \<Rightarrow>
                 (case fs p of
                    None \<Rightarrow> (Some FileNotFoundError, s)
                  | Some PickledOther \<Rightarrow> (Some TypeError, s)
                  | Some (Pickled3 hc h ws) \<Rightarrow>
                      (None, s\<lparr>header_common := hc, header := h, workspace := ws\<rparr>))))"

section \<open>Sequences of calls\<close>

text \<open>
  The public operations of a session that change it or the file system, as data, so
  that a property can be stated of every sequence of calls. \<open>call\<close> gives the session
  and the file system as the call leaves them, whether it raised or not: a caller may
  catch the exception and go on.
\<close>

datatype 'a method_call =
    Append "'a pyvalue"
  | Delete "'a pymec"
  | WipeWorkspace
  | AddToHeader header
  | SaveToFile nat "string option" bool
  | LoadFile "string option" bool

fun call :: "'a session \<times> 'a filesystem \<Rightarrow> 'a method_call \<Rightarrow> 'a session \<times> 'a filesystem" where
  "call (s, fs) (Append v) = (snd (append s v), fs)"
| "call (s, fs) (Delete obj) = (snd (delete s obj), fs)"
| "call (s, fs) WipeWorkspace = (wipe_workspace s, fs)"
| "call (s, fs) (AddToHeader h) = (add_to_header s h, fs)"
| "call (s, fs) (SaveToFile now filename overwrite) = snd (save_to_file s fs now filename overwrite)"
| "call (s, fs) (LoadFile filename overwrite) = (snd (load_file s fs filename overwrite), fs)"

fun calls :: "'a session \<times> 'a filesystem \<Rightarrow> 'a method_call list \<Rightarrow> 'a session \<times> 'a filesystem" where
  "calls st [] = st"
| "calls st (c # cs) = calls (call st c) cs"

text \<open>
  Every \<^verbatim>\<open>append\<close> of the sequence is given an object whose uid is not in the
  workspace at that moment.
\<close>

fun appends_fresh :: "'a session \<times> 'a filesystem \<Rightarrow> 'a method_call list \<Rightarrow> bool" where
  "appends_fresh st [] = True"
| "appends_fresh st (Append (PyMec obj) # cs) =
     (uid_of obj \<notin> set (map uid_of (workspace (fst st))) \<and>
      appends_fresh (call st (Append (PyMec obj))) cs)"
| "appends_fresh st (c # cs) = appends_fresh (call st c) cs"

text \<open>The workspace stored in every session file has pairwise distinct uids.\<close>

definition files_distinct :: "'a filesystem \<Rightarrow> bool" where
  "files_distinct fs =
     (\<forall>p hc h ws. fs p = Some (Pickled3 hc h ws) \<longrightarrow> distinct (map uid_of ws))"

text \<open>
  The invariant of a session and a file system: the uids of the workspace are
  pairwise distinct, and so are those of every stored workspace.
\<close>

definition uids_inv :: "'a session \<times> 'a filesystem \<Rightarrow> bool" where
  "uids_inv st = (distinct (map uid_of (workspace (fst st))) \<and> files_distinct (snd st))"

section \<open>Contour.is_closed\<close>

text \<open>
  Modelled from the spec: \<^verbatim>\<open>Contour.is_closed\<close> is called by test_geometry.py and is
  not defined in geometry.py, whose \<^verbatim>\<open>Contour\<close> has only \<^verbatim>\<open>segments\<close> and
  \<^verbatim>\<open>add_segment\<close>. The spec: true iff, walking the segment list in order and wrapping
  from the last segment back to the first, each segment's end point equals the next
  segment's start point (value equality on position coordinates, which is
  \<^verbatim>\<open>Vector.__eq__\<close>); a contour of fewer than 3 segments is never closed.
  \<open>closed_walk first segs\<close> walks \<open>segs\<close>, and \<open>first\<close> is the segment that follows the
  last one.
\<close>

fun closed_walk :: "'a segment \<Rightarrow> 'a segment list \<Rightarrow> bool" where
  "closed_walk first [] = True"
| "closed_walk first [s] = vector_eq (position (end_point s)) (position (start_point first))"
| "closed_walk first (s # t # rest) =
     (vector_eq (position (end_point s)) (position (start_point t)) \<and>
      closed_walk first (t # rest))"

definition is_closed :: "'a contour \<Rightarrow> bool" where
  "is_closed c =
     (case segment_list c of
        [] \<Rightarrow> False
      | first # rest \<Rightarrow>
          if length (first # rest) < 3 then False else closed_walk first (first # rest))"

section \<open>Lookup by uid and \<^verbatim>\<open>delete\<close>\<close>

lemma search_uid_loop_None:
  "search_uid_loop (enumerate n ws) u = None \<longleftrightarrow> u \<notin> set (map uid_of ws)"
  by (induction ws arbitrary: n) auto

lemma search_uid_loop_Some:
  "u \<in> set (map uid_of ws) \<Longrightarrow>
   \<exists>i<length ws. uid_of (ws ! i) = u \<and> (\<forall>j<i. uid_of (ws ! j) \<noteq> u) \<and>
      search_uid_loop (enumerate n ws) u = Some [(ws ! i, n + i)]"
proof (induction ws arbitrary: n)
  case Nil
  then show ?case by simp
next
  case (Cons x xs)
  show ?case
  proof (cases "uid_of x = u")
    case True
    then have "0 < length (x # xs) \<and> uid_of ((x # xs) ! 0) = u \<and>
        (\<forall>j<0. uid_of ((x # xs) ! j) \<noteq> u) \<and>
        search_uid_loop (enumerate n (x # xs)) u = Some [((x # xs) ! 0, n + 0)]"
      by simp
    then show ?thesis by blast
  next
    case False
    with Cons.prems have "u \<in> set (map uid_of xs)" by auto
    from Cons.IH [OF this, of "Suc n"] obtain i where
      i: "i < length xs" "uid_of (xs ! i) = u" "\<forall>j<i. uid_of (xs ! j) \<noteq> u"
         "search_uid_loop (enumerate (Suc n) xs) u = Some [(xs ! i, Suc n + i)]"
      by blast
    have "\<forall>j<Suc i. uid_of ((x # xs) ! j) \<noteq> u"
      using False i(3) by (auto simp: nth_Cons split: nat.splits)
    with i False have "Suc i < length (x # xs) \<and> uid_of ((x # xs) ! Suc i) = u \<and>
        (\<forall>j<Suc i. uid_of ((x # xs) ! j) \<noteq> u) \<and>
        search_uid_loop (enumerate n (x # xs)) u = Some [((x # xs) ! Suc i, n + Suc i)]"
      by simp
    then show ?thesis by blast
  qed
qed

text \<open>
  What \<^verbatim>\<open>delete(obj)\<close> does. When some workspace entry has the uid of \<open>obj\<close>, it
  removes the entry at the first index \<open>i\<close> with that uid and keeps all the others in
  their order (the workspace becomes \<open>take i ws @ drop (Suc i) ws\<close>); nothing else of
  the session changes. When no entry has the uid, \<^verbatim>\<open>search_by_uid\<close> returns \<^verbatim>\<open>None\<close>,
  \<^verbatim>\<open>result[0]\<close> raises \<^verbatim>\<open>TypeError\<close>, and the session is as before.
\<close>

lemma delete_first_match_or_TypeError:
  "(uid_of obj \<in> set (map uid_of (workspace s)) \<longrightarrow>
      (\<exists>i<length (workspace s).
          uid_of (workspace s ! i) = uid_of obj \<and>
          (\<forall>j<i. uid_of (workspace s ! j) \<noteq> uid_of obj) \<and>
          delete s obj =
            (None, s\<lparr>workspace := take i (workspace s) @ drop (Suc i) (workspace s)\<rparr>))) \<and>
   (uid_of obj \<notin> set (map uid_of (workspace s)) \<longrightarrow> delete s obj = (Some TypeError, s))"
proof (intro conjI impI)
  assume "uid_of obj \<in> set (map uid_of (workspace s))"
  from search_uid_loop_Some [OF this, of 0] obtain i where
    i: "i < length (workspace s)" "uid_of (workspace s ! i) = uid_of obj"
       "\<forall>j<i. uid_of (workspace s ! j) \<noteq> uid_of obj"
       "search_uid_loop (enumerate 0 (workspace s)) (uid_of obj) = Some [(workspace s ! i, 0 + i)]"
    by blast
  have "delete s obj =
      (None, s\<lparr>workspace := take i (workspace s) @ drop (Suc i) (workspace s)\<rparr>)"
    using i(1,4) by (simp add: delete_def search_by_uid_def pop_def)
  with i show "\<exists>i<length (workspace s).
          uid_of (workspace s ! i) = uid_of obj \<and>
          (\<forall>j<i. uid_of (workspace s ! j) \<noteq> uid_of obj) \<and>
          delete s obj =
            (None, s\<lparr>workspace := take i (workspace s) @ drop (Suc i) (workspace s)\<rparr>)"
    by blast
next
  assume "uid_of obj \<notin> set (map uid_of (workspace s))"
  then have "search_uid_loop (enumerate 0 (workspace s)) (uid_of obj) = None"
    by (simp add: search_uid_loop_None)
  then show "delete s obj = (Some TypeError, s)"
    by (simp add: delete_def search_by_uid_def)
qed

text \<open>
  C8. The claim: \<^verbatim>\<open>delete(obj)\<close> removes the first entry with the uid of \<open>obj\<close>, and
  fails with NotFound when there is none. The first part holds (the lemma above). The
  second does not: \<^verbatim>\<open>delete\<close> has no case for the \<^verbatim>\<open>None\<close> that \<^verbatim>\<open>search_by_uid\<close>
  returns, by its docstring, when the uid is not found. Below, on the session of
  \<^verbatim>\<open>test_delete\<close> shortened to three objects, an object that was never appended is
  deleted: \<^verbatim>\<open>search_by_uid\<close> returns \<^verbatim>\<open>None\<close>, and \<^verbatim>\<open>delete\<close> ends in the
  \<^verbatim>\<open>TypeError\<close> of subscripting it, the exception that \<^verbatim>\<open>append\<close> raises for an
  argument of the wrong type. The session is unchanged.
\<close>

theorem delete_absent_uid_raises_TypeError:
  "search_by_uid ((PyMecSession :: int session)\<lparr>workspace :=
       [Obj \<lparr>uid = ''u1'', name = ''''\<rparr>, Obj \<lparr>uid = ''u2'', name = ''to be deleted''\<rparr>,
        Obj \<lparr>uid = ''u3'', name = ''''\<rparr>]\<rparr>) ''u4'' = None \<and>
   delete ((PyMecSession :: int session)\<lparr>workspace :=
       [Obj \<lparr>uid = ''u1'', name = ''''\<rparr>, Obj \<lparr>uid = ''u2'', name = ''to be deleted''\<rparr>,
        Obj \<lparr>uid = ''u3'', name = ''''\<rparr>]\<rparr>) (Obj \<lparr>uid = ''u4'', name = ''''\<rparr>)
     = (Some TypeError, (PyMecSession :: int session)\<lparr>workspace :=
       [Obj \<lparr>uid = ''u1'', name = ''''\<rparr>, Obj \<lparr>uid = ''u2'', name = ''to be deleted''\<rparr>,
        Obj \<lparr>uid = ''u3'', name = ''''\<rparr>]\<rparr>) \<and>
   append ((PyMecSession :: int session)\<lparr>workspace :=
       [Obj \<lparr>uid = ''u1'', name = ''''\<rparr>, Obj \<lparr>uid = ''u2'', name = ''to be deleted''\<rparr>,
        Obj \<lparr>uid = ''u3'', name = ''''\<rparr>]\<rparr>) NotPyMec
     = (Some TypeError, (PyMecSession :: int session)\<lparr>workspace :=
       [Obj \<lparr>uid = ''u1'', name = ''''\<rparr>, Obj \<lparr>uid = ''u2'', name = ''to be deleted''\<rparr>,
        Obj \<lparr>uid = ''u3'', name = ''''\<rparr>]\<rparr>)"
  by (simp add: delete_def search_by_uid_def append_def)

section \<open>\<^verbatim>\<open>search_by_name\<close>\<close>

lemma py_max_Max: "xs \<noteq> [] \<Longrightarrow> py_max xs = Inr (Max (set xs))"
proof -
  have eq: "(\<lambda>m y::int. if m < y then y else m) = (\<lambda>m y. max y m)"
    by (auto simp: fun_eq_iff max_def)
  have "foldl (\<lambda>m y. if m < y then y else m) x ys = Max (set (x # ys))" for x :: int and ys
    unfolding eq by (simp only: foldl_conv_fold Max.set_eq_fold)
  then show "xs \<noteq> [] \<Longrightarrow> py_max xs = Inr (Max (set xs))"
    by (cases xs) simp_all
qed

lemma enumerate_filter_index:
  "map (\<lambda>(i, x). (x, i)) (filter (\<lambda>(i, x). P i) (enumerate 0 ws))
     = map (\<lambda>i. (ws ! i, i)) (filter P [0..<length ws])"
proof -
  have "enumerate 0 ws = map (\<lambda>i. (i, ws ! i)) [0..<length ws]"
    by (rule nth_equalityI) (simp_all add: nth_enumerate_eq)
  then show ?thesis
    by (simp add: filter_map comp_def case_prod_unfold)
qed

text \<open>
  C4. On a session whose workspace is not empty, \<^verbatim>\<open>search_by_name\<close> returns a list
  (it does not raise). With \<open>score i\<close> the ratio of the name of the object at index
  \<open>i\<close> against the query and \<open>best\<close> the greatest score over the workspace, the list is
  empty when \<open>best < 70\<close>; otherwise it holds, in the order of the workspace, the pair
  (object, index) of every index whose score is \<open>best\<close>, ties included. The scoring
  function is a parameter: the statement holds for every one, so for one with values
  from 0 to 100.
\<close>

theorem search_by_name_best_matches:
  "workspace s \<noteq> [] \<Longrightarrow>
   search_by_name ratio s nm =
     (let ws = workspace s;
          score = (\<lambda>i. ratio (name_of (ws ! i)) nm);
          best = Max (score ` {..<length ws})
      in Inr (if best < 70 then []
              else map (\<lambda>i. (ws ! i, i)) (filter (\<lambda>i. score i = best) [0..<length ws])))"
proof -
  assume ne: "workspace s \<noteq> []"
  let ?ws = "workspace s"
  let ?scores = "map (\<lambda>obj. ratio (name_of obj) nm) ?ws"
  let ?score = "\<lambda>i. ratio (name_of (?ws ! i)) nm"
  have set_eq: "set ?scores = ?score ` {..<length ?ws}"
  proof -
    have "set ?ws = (\<lambda>i. ?ws ! i) ` {..<length ?ws}"
      by (auto simp: in_set_conv_nth)
    then have "(\<lambda>obj. ratio (name_of obj) nm) ` set ?ws = ?score ` {..<length ?ws}"
      by (simp only: image_image)
    then show ?thesis by simp
  qed
  have mx: "py_max ?scores = Inr (Max (?score ` {..<length ?ws}))"
    using py_max_Max [of ?scores] ne set_eq by simp
  have flt: "filter (\<lambda>(i, x). ?scores ! i = b) (enumerate 0 ?ws)
             = filter (\<lambda>(i, x). ?score i = b) (enumerate 0 ?ws)" for b
    by (rule filter_cong) (auto simp: in_set_enumerate_eq)
  show ?thesis
    unfolding search_by_name_def Let_def mx flt
    by (simp add: enumerate_filter_index)
qed

text \<open>
  Three objects, the first and the third with the same name, and a scoring function
  that gives 100 to equal names and 0 to others: the query \<open>ab\<close> returns both tied
  objects with their indices, in order; the query \<open>xy\<close> scores below 70 everywhere
  and returns the empty list.
\<close>

theorem search_by_name_best_matches_witness:
  "workspace ((PyMecSession :: int session)\<lparr>workspace :=
       [Obj \<lparr>uid = ''u1'', name = ''ab''\<rparr>, Obj \<lparr>uid = ''u2'', name = ''cd''\<rparr>,
        Obj \<lparr>uid = ''u3'', name = ''ab''\<rparr>]\<rparr>) \<noteq> [] \<and>
   search_by_name (\<lambda>a b. if a = b then 100 else 0)
     ((PyMecSession :: int session)\<lparr>workspace :=
       [Obj \<lparr>uid = ''u1'', name = ''ab''\<rparr>, Obj \<lparr>uid = ''u2'', name = ''cd''\<rparr>,
        Obj \<lparr>uid = ''u3'', name = ''ab''\<rparr>]\<rparr>) ''ab''
     = Inr [(Obj \<lparr>uid = ''u1'', name = ''ab''\<rparr>, 0), (Obj \<lparr>uid = ''u3'', name = ''ab''\<rparr>, 2)] \<and>
   search_by_name (\<lambda>a b. if a = b then 100 else 0)
     ((PyMecSession :: int session)\<lparr>workspace :=
       [Obj \<lparr>uid = ''u1'', name = ''ab''\<rparr>, Obj \<lparr>uid = ''u2'', name = ''cd''\<rparr>,
        Obj \<lparr>uid = ''u3'', name = ''ab''\<rparr>]\<rparr>) ''xy''
     = Inr []"
  using search_by_name_best_matches [of "(PyMecSession :: int session)\<lparr>workspace :=
       [Obj \<lparr>uid = ''u1'', name = ''ab''\<rparr>, Obj \<lparr>uid = ''u2'', name = ''cd''\<rparr>,
        Obj \<lparr>uid = ''u3'', name = ''ab''\<rparr>]\<rparr>" "\<lambda>a b. if a = b then 100 else 0" "''ab''"]
    search_by_name_best_matches [of "(PyMecSession :: int session)\<lparr>workspace :=
       [Obj \<lparr>uid = ''u1'', name = ''ab''\<rparr>, Obj \<lparr>uid = ''u2'', name = ''cd''\<rparr>,
        Obj \<lparr>uid = ''u3'', name = ''ab''\<rparr>]\<rparr>" "\<lambda>a b. if a = b then 100 else 0" "''xy''"]
  by (simp add: lessThan_Suc numeral_3_eq_3 upt_rec [of 0] upt_rec [of "Suc 0"]
        upt_rec [of "Suc (Suc 0)"] upt_rec [of "Suc (Suc (Suc 0))"])

text \<open>
  C10. On a session whose workspace is empty, \<^verbatim>\<open>search_by_name\<close> raises: the list of
  scores is empty and \<^verbatim>\<open>max\<close> of an empty list is a \<^verbatim>\<open>ValueError\<close>. It does not
  return the empty list.
\<close>

theorem search_by_name_empty_workspace_raises:
  "workspace s = [] \<Longrightarrow> search_by_name ratio s nm = Inl ValueError"
  by (simp add: search_by_name_def)

theorem search_by_name_empty_workspace_raises_witness:
  "workspace (PyMecSession :: int session) = [] \<and>
   search_by_name (\<lambda>a b. if a = b then 100 else 0) (PyMecSession :: int session) ''Object_2''
     = Inl ValueError"
  using search_by_name_empty_workspace_raises
    [of "PyMecSession :: int session" "\<lambda>a b. if a = b then 100 else 0" "''Object_2''"]
  by (simp add: PyMecSession_def)

section \<open>\<^verbatim>\<open>save_to_file\<close> and \<^verbatim>\<open>load_file\<close>\<close>

text \<open>
  C3. On a session whose workspace is not empty, \<^verbatim>\<open>load_file\<close> with
  \<^verbatim>\<open>overwrite=False\<close> raises (\<^verbatim>\<open>FileExistsError\<close>, the spec's WorkspaceNotEmpty),
  whatever the file name and the file system, and the session it leaves is the session
  it was given: workspace, header and common header are unchanged. The test of the
  workspace is the first statement, before the file name is resolved or a file opened.
\<close>

theorem load_file_nonempty_workspace_refused:
  "workspace s \<noteq> [] \<Longrightarrow> load_file s fs filename False = (Some FileExistsError, s)"
  by (simp add: load_file_def)

text \<open>
  As in \<^verbatim>\<open>test_save_load_file\<close>: a session with one object, \<^verbatim>\<open>session.load_file()\<close>.
\<close>

theorem load_file_nonempty_workspace_refused_witness:
  "workspace ((PyMecSession :: int session)\<lparr>workspace :=
      [Obj \<lparr>uid = ''u1'', name = ''an object''\<rparr>]\<rparr>) \<noteq> [] \<and>
   load_file ((PyMecSession :: int session)\<lparr>workspace :=
      [Obj \<lparr>uid = ''u1'', name = ''an object''\<rparr>]\<rparr>) Map.empty None False
     = (Some FileExistsError,
        (PyMecSession :: int session)\<lparr>workspace := [Obj \<lparr>uid = ''u1'', name = ''an object''\<rparr>]\<rparr>)"
  using load_file_nonempty_workspace_refused
    [of "(PyMecSession :: int session)\<lparr>workspace := [Obj \<lparr>uid = ''u1'', name = ''an object''\<rparr>]\<rparr>"
        Map.empty None]
  by simp

text \<open>
  C9. When \<^verbatim>\<open>save_to_file\<close> succeeds, with \<open>p\<close> the path it wrote to (the argument,
  or the header's \<^verbatim>\<open>filename\<close> when there is no argument), \<^verbatim>\<open>load_file(p)\<close> on a new
  session succeeds, and the loaded session has the same sequence of uids in its
  workspace and a header that agrees with the header before the save on every key
  other than \<^verbatim>\<open>filename\<close> and \<^verbatim>\<open>savedate\<close>; these two hold the path and the time of
  the save.
\<close>

theorem save_then_load_round_trip:
  "save_to_file s fs now filename overwrite = (None, s', fs') \<Longrightarrow>
   \<exists>p t. (case filename of Some f \<Rightarrow> p = f | None \<Rightarrow> header s ''filename'' = Some (HPath p)) \<and>
      load_file PyMecSession fs' (Some p) ow = (None, t) \<and>
      map uid_of (workspace t) = map uid_of (workspace s) \<and>
      header t ''filename'' = Some (HPath p) \<and>
      header t ''savedate'' = Some (HDate now) \<and>
      (\<forall>k. k \<noteq> ''filename'' \<and> k \<noteq> ''savedate'' \<longrightarrow> header t k = header s k)"
  by (auto simp: save_to_file_def load_file_def PyMecSession_def Let_def
           split: option.splits hvalue.splits if_splits)

text \<open>
  As in \<^verbatim>\<open>test_save_load_file\<close>: a session with one object and the header entry
  \<open>prop_1\<close> is saved with \<^verbatim>\<open>overwrite=True\<close>, and the file loads into a new session
  with the same uid.
\<close>

theorem save_then_load_round_trip_witness:
  "save_to_file
     \<lparr>workspace = [Obj \<lparr>uid = ''u1'', name = ''an object''\<rparr> :: int pymec],
      header_common = [''pyMec version'' \<mapsto> HStr ''0.0.1''],
      header = [''prop_1'' \<mapsto> HStr ''a'']\<rparr>
     Map.empty 7 (Some ''s.pymec'') True
   = (None,
      \<lparr>workspace = [Obj \<lparr>uid = ''u1'', name = ''an object''\<rparr>],
       header_common = [''pyMec version'' \<mapsto> HStr ''0.0.1''],
       header = [''prop_1'' \<mapsto> HStr ''a'', ''filename'' \<mapsto> HPath ''s.pymec'',
                 ''savedate'' \<mapsto> HDate 7]\<rparr>,
      [''s.pymec'' \<mapsto>
         Pickled3 [''pyMec version'' \<mapsto> HStr ''0.0.1'']
           [''prop_1'' \<mapsto> HStr ''a'', ''filename'' \<mapsto> HPath ''s.pymec'',
            ''savedate'' \<mapsto> HDate 7]
           [Obj \<lparr>uid = ''u1'', name = ''an object''\<rparr>]]) \<and>
   (\<exists>p t. load_file (PyMecSession :: int session)
          [''s.pymec'' \<mapsto>
             Pickled3 [''pyMec version'' \<mapsto> HStr ''0.0.1'']
               [''prop_1'' \<mapsto> HStr ''a'', ''filename'' \<mapsto> HPath ''s.pymec'',
                ''savedate'' \<mapsto> HDate 7]
               [Obj \<lparr>uid = ''u1'', name = ''an object''\<rparr>]]
          (Some p) False = (None, t) \<and>
        map uid_of (workspace t) = [''u1''])"
proof (rule conjI)
  show saved: "save_to_file
     \<lparr>workspace = [Obj \<lparr>uid = ''u1'', name = ''an object''\<rparr> :: int pymec],
      header_common = [''pyMec version'' \<mapsto> HStr ''0.0.1''],
      header = [''prop_1'' \<mapsto> HStr ''a'']\<rparr>
     Map.empty 7 (Some ''s.pymec'') True
   = (None,
      \<lparr>workspace = [Obj \<lparr>uid = ''u1'', name = ''an object''\<rparr>],
       header_common = [''pyMec version'' \<mapsto> HStr ''0.0.1''],
       header = [''prop_1'' \<mapsto> HStr ''a'', ''filename'' \<mapsto> HPath ''s.pymec'',
                 ''savedate'' \<mapsto> HDate 7]\<rparr>,
      [''s.pymec'' \<mapsto>
         Pickled3 [''pyMec version'' \<mapsto> HStr ''0.0.1'']
           [''prop_1'' \<mapsto> HStr ''a'', ''filename'' \<mapsto> HPath ''s.pymec'',
            ''savedate'' \<mapsto> HDate 7]
           [Obj \<lparr>uid = ''u1'', name = ''an object''\<rparr>]])"
    by (simp add: save_to_file_def)
  from save_then_load_round_trip [OF saved, of False]
  show "\<exists>p t. load_file (PyMecSession :: int session)
          [''s.pymec'' \<mapsto>
             Pickled3 [''pyMec version'' \<mapsto> HStr ''0.0.1'']
               [''prop_1'' \<mapsto> HStr ''a'', ''filename'' \<mapsto> HPath ''s.pymec'',
                ''savedate'' \<mapsto> HDate 7]
               [Obj \<lparr>uid = ''u1'', name = ''an object''\<rparr>]]
          (Some p) False = (None, t) \<and>
        map uid_of (workspace t) = [''u1'']"
    apply (elim exE conjE)
    apply (intro exI conjI)
     apply assumption
    apply simp
    done
qed

text \<open>
  C1. The claim: when the target file exists and \<^verbatim>\<open>overwrite\<close> is false,
  \<^verbatim>\<open>save_to_file\<close> fails and leaves the header as it was. The code raises
  \<^verbatim>\<open>FileExistsError\<close> as claimed, but only after it has stored \<^verbatim>\<open>filename\<close> and
  \<^verbatim>\<open>savedate\<close> in the header: the two assignments stand before the test of
  \<^verbatim>\<open>filepath.exists()\<close>. Below, a new session (empty header) saves to a path that exists;
  the call fails, nothing is written, and the header now holds both entries: a date
  of saving for a save that did not happen. \<^verbatim>\<open>load_file\<close>, the sibling, tests its guard
  before it changes anything.
\<close>

theorem save_to_file_existing_target_changes_header:
  "save_to_file (PyMecSession :: int session) [''s.pymec'' \<mapsto> PickledOther] 7 (Some ''s.pymec'') False
     = (Some FileExistsError,
        \<lparr>workspace = [],
         header_common = [''pyMec version'' \<mapsto> HStr ''0.0.1''],
         header = [''filename'' \<mapsto> HPath ''s.pymec'', ''savedate'' \<mapsto> HDate 7]\<rparr>,
        [''s.pymec'' \<mapsto> PickledOther]) \<and>
   header (PyMecSession :: int session) ''filename'' = None \<and>
   header (PyMecSession :: int session) ''savedate'' = None \<and>
   header (fst (snd (save_to_file (PyMecSession :: int session) [''s.pymec'' \<mapsto> PickledOther] 7
       (Some ''s.pymec'') False))) ''filename'' = Some (HPath ''s.pymec'') \<and>
   header (fst (snd (save_to_file (PyMecSession :: int session) [''s.pymec'' \<mapsto> PickledOther] 7
       (Some ''s.pymec'') False))) ''savedate'' = Some (HDate 7)"
  by (simp add: save_to_file_def PyMecSession_def)

section \<open>Uids in the workspace\<close>

lemma distinct_uids_pop:
  assumes "distinct (map uid_of ws)"
  shows "distinct (map uid_of (take i ws @ drop (Suc i) ws))"
proof (cases "i < length ws")
  case True
  then have "ws = take i ws @ ws ! i # drop (Suc i) ws"
    by (rule id_take_nth_drop)
  then have "map uid_of ws =
      map uid_of (take i ws) @ uid_of (ws ! i) # map uid_of (drop (Suc i) ws)"
    by (metis list.simps(9) map_append)
  with assms have "distinct (map uid_of (take i ws) @ uid_of (ws ! i) # map uid_of (drop (Suc i) ws))"
    by simp
  then show ?thesis by simp
next
  case False
  with assms show ?thesis by simp
qed

lemma delete_workspace:
  "workspace (snd (delete s obj)) = workspace s \<or>
   (\<exists>i. workspace (snd (delete s obj)) = take i (workspace s) @ drop (Suc i) (workspace s))"
  by (auto simp: delete_def pop_def split: option.splits list.splits sum.splits)

lemma delete_distinct:
  assumes d: "distinct (map uid_of (workspace s))"
  shows "distinct (map uid_of (workspace (snd (delete s obj))))"
  using delete_workspace [of s obj]
proof
  assume "workspace (snd (delete s obj)) = workspace s"
  with d show ?thesis by simp
next
  assume "\<exists>i. workspace (snd (delete s obj)) = take i (workspace s) @ drop (Suc i) (workspace s)"
  then obtain i where
    "workspace (snd (delete s obj)) = take i (workspace s) @ drop (Suc i) (workspace s)" ..
  with distinct_uids_pop [OF d, of i] show ?thesis by (simp only:)
qed

lemma save_inv:
  "uids_inv (s, fs) \<Longrightarrow> uids_inv (snd (save_to_file s fs now filename overwrite))"
  by (auto simp: uids_inv_def save_to_file_def files_distinct_def Let_def
           split: option.splits hvalue.splits)

lemma load_inv:
  "uids_inv (s, fs) \<Longrightarrow> uids_inv (snd (load_file s fs filename overwrite), fs)"
  by (auto simp: uids_inv_def load_file_def files_distinct_def
           split: option.splits hvalue.splits sum.splits pickled.splits)

lemma call_inv:
  assumes "uids_inv st"
    and "\<And>obj. c = Append (PyMec obj) \<Longrightarrow> uid_of obj \<notin> set (map uid_of (workspace (fst st)))"
  shows "uids_inv (call st c)"
proof (cases st)
  case (Pair s fs)
  show ?thesis
  proof (cases c)
    case (Append v)
    with assms Pair show ?thesis
      by (cases v) (auto simp: uids_inv_def append_def)
  next
    case (Delete obj)
    with assms(1) Pair show ?thesis
      by (simp add: uids_inv_def delete_distinct)
  next
    case WipeWorkspace
    with assms(1) Pair show ?thesis
      by (simp add: uids_inv_def wipe_workspace_def)
  next
    case (AddToHeader h)
    with assms(1) Pair show ?thesis
      by (simp add: uids_inv_def add_to_header_def)
  next
    case (SaveToFile now filename overwrite)
    with assms(1) Pair show ?thesis
      by (simp add: save_inv)
  next
    case (LoadFile filename overwrite)
    with assms(1) Pair show ?thesis
      by (simp add: load_inv)
  qed
qed

lemma appends_fresh_Cons:
  "appends_fresh st (c # cs) \<longleftrightarrow>
     (\<forall>obj. c = Append (PyMec obj) \<longrightarrow> uid_of obj \<notin> set (map uid_of (workspace (fst st)))) \<and>
     appends_fresh (call st c) cs"
proof (cases c)
  case (Append v)
  then show ?thesis by (cases v) simp_all
qed simp_all

lemma calls_inv:
  "uids_inv st \<Longrightarrow> appends_fresh st cs \<Longrightarrow> uids_inv (calls st cs)"
proof (induction cs arbitrary: st)
  case Nil
  then show ?case by simp
next
  case (Cons c cs)
  from Cons.prems(2) have
    fresh: "\<And>obj. c = Append (PyMec obj) \<Longrightarrow> uid_of obj \<notin> set (map uid_of (workspace (fst st)))"
    and rest: "appends_fresh (call st c) cs"
    by (simp_all add: appends_fresh_Cons)
  from Cons.prems(1) fresh have "uids_inv (call st c)" by (rule call_inv)
  from Cons.IH [OF this rest] show ?case by simp
qed

text \<open>
  C2, the claim as stated fails: \<^verbatim>\<open>append\<close> tests only that its argument is a
  \<^verbatim>\<open>PyMecObject\<close>; no operation of the session compares uids. Appending the same object
  twice to a new session succeeds both times and leaves a workspace with two entries
  of one uid.
\<close>

theorem append_twice_duplicate_uid:
  "append (snd (append (PyMecSession :: int session) (PyMec (Obj \<lparr>uid = ''u1'', name = ''a''\<rparr>))))
      (PyMec (Obj \<lparr>uid = ''u1'', name = ''a''\<rparr>))
     = (None, (PyMecSession :: int session)\<lparr>workspace :=
          [Obj \<lparr>uid = ''u1'', name = ''a''\<rparr>, Obj \<lparr>uid = ''u1'', name = ''a''\<rparr>]\<rparr>) \<and>
   \<not> distinct (map uid_of (workspace (snd
      (append (snd (append (PyMecSession :: int session) (PyMec (Obj \<lparr>uid = ''u1'', name = ''a''\<rparr>))))
         (PyMec (Obj \<lparr>uid = ''u1'', name = ''a''\<rparr>))))))"
  by (simp add: append_def PyMecSession_def)

text \<open>
  C2, amended. For every session and file system reached from a new session by any
  sequence of calls of \<^verbatim>\<open>append\<close>, \<^verbatim>\<open>delete\<close>, \<^verbatim>\<open>wipe_workspace\<close>, \<^verbatim>\<open>add_to_header\<close>,
  \<^verbatim>\<open>save_to_file\<close> and \<^verbatim>\<open>load_file\<close>, whether they raise or not, the uids of the workspace
  are pairwise distinct, provided that no \<^verbatim>\<open>append\<close> of the sequence is given an object
  whose uid is in the workspace at that moment, and that the session files present at the
  start hold workspaces with pairwise distinct uids.
\<close>

theorem fresh_appends_keep_uids_distinct:
  "files_distinct fs \<Longrightarrow> appends_fresh (PyMecSession, fs) cs \<Longrightarrow>
   distinct (map uid_of (workspace (fst (calls (PyMecSession, fs) cs))))"
  using calls_inv [of "(PyMecSession, fs)" cs]
  by (simp add: uids_inv_def PyMecSession_def)

text \<open>
  Two objects are appended, the first is deleted, the session is saved, wiped and
  loaded again: the workspace holds the second object.
\<close>

theorem fresh_appends_keep_uids_distinct_witness:
  "files_distinct (Map.empty :: int filesystem) \<and>
   appends_fresh (PyMecSession :: int session, Map.empty)
     [Append (PyMec (Obj \<lparr>uid = ''u1'', name = ''a''\<rparr>)),
      Append (PyMec (Obj \<lparr>uid = ''u2'', name = ''b''\<rparr>)),
      Delete (Obj \<lparr>uid = ''u1'', name = ''a''\<rparr>),
      SaveToFile 7 (Some ''s.pymec'') False,
      WipeWorkspace,
      LoadFile None False] \<and>
   workspace (fst (calls (PyMecSession :: int session, Map.empty)
     [Append (PyMec (Obj \<lparr>uid = ''u1'', name = ''a''\<rparr>)),
      Append (PyMec (Obj \<lparr>uid = ''u2'', name = ''b''\<rparr>)),
      Delete (Obj \<lparr>uid = ''u1'', name = ''a''\<rparr>),
      SaveToFile 7 (Some ''s.pymec'') False,
      WipeWorkspace,
      LoadFile None False])) = [Obj \<lparr>uid = ''u2'', name = ''b''\<rparr>] \<and>
   distinct (map uid_of (workspace (fst (calls (PyMecSession :: int session, Map.empty)
     [Append (PyMec (Obj \<lparr>uid = ''u1'', name = ''a''\<rparr>)),
      Append (PyMec (Obj \<lparr>uid = ''u2'', name = ''b''\<rparr>)),
      Delete (Obj \<lparr>uid = ''u1'', name = ''a''\<rparr>),
      SaveToFile 7 (Some ''s.pymec'') False,
      WipeWorkspace,
      LoadFile None False]))))"
proof -
  have fd: "files_distinct (Map.empty :: int filesystem)"
    by (simp add: files_distinct_def)
  have fr: "appends_fresh (PyMecSession :: int session, Map.empty)
     [Append (PyMec (Obj \<lparr>uid = ''u1'', name = ''a''\<rparr>)),
      Append (PyMec (Obj \<lparr>uid = ''u2'', name = ''b''\<rparr>)),
      Delete (Obj \<lparr>uid = ''u1'', name = ''a''\<rparr>),
      SaveToFile 7 (Some ''s.pymec'') False,
      WipeWorkspace,
      LoadFile None False]"
    by (simp add: PyMecSession_def append_def)
  have ws: "workspace (fst (calls (PyMecSession :: int session, Map.empty)
     [Append (PyMec (Obj \<lparr>uid = ''u1'', name = ''a''\<rparr>)),
      Append (PyMec (Obj \<lparr>uid = ''u2'', name = ''b''\<rparr>)),
      Delete (Obj \<lparr>uid = ''u1'', name = ''a''\<rparr>),
      SaveToFile 7 (Some ''s.pymec'') False,
      WipeWorkspace,
      LoadFile None False])) = [Obj \<lparr>uid = ''u2'', name = ''b''\<rparr>]"
    by (simp add: PyMecSession_def append_def delete_def search_by_uid_def pop_def
          save_to_file_def wipe_workspace_def load_file_def)
  from fd fr ws fresh_appends_keep_uids_distinct [OF fd fr] show ?thesis by (simp only: simp_thms)
qed


section \<open>Closed contours\<close>

lemma closed_walk_nth:
  "segs \<noteq> [] \<Longrightarrow>
   closed_walk first segs \<longleftrightarrow>
     (\<forall>i<length segs.
        vector_eq (position (end_point (segs ! i)))
                  (position (start_point ((segs @ [first]) ! Suc i))))"
proof (induction first segs rule: closed_walk.induct)
  case (1 first)
  then show ?case by simp
next
  case (2 first s)
  then show ?case by simp
next
  case (3 first s t rest)
  have "closed_walk first (s # t # rest) \<longleftrightarrow>
      vector_eq (position (end_point s)) (position (start_point t)) \<and>
      (\<forall>i<length (t # rest).
          vector_eq (position (end_point ((t # rest) ! i)))
                    (position (start_point (((t # rest) @ [first]) ! Suc i))))"
    using "3.IH" by simp
  also have "\<dots> \<longleftrightarrow>
      (\<forall>i<length (s # t # rest).
          vector_eq (position (end_point ((s # t # rest) ! i)))
                    (position (start_point (((s # t # rest) @ [first]) ! Suc i))))"
    by (subst length_Cons, subst All_less_Suc2) simp
  finally show ?case .
qed

lemma wrap_nth:
  assumes "segs = first # rest" "i < length segs"
  shows "(segs @ [first]) ! Suc i = segs ! (Suc i mod length segs)"
proof (cases "Suc i < length segs")
  case True
  then show ?thesis by (simp add: nth_append)
next
  case False
  with assms(2) have "Suc i = length segs" by simp
  then show ?thesis using assms(1) by (simp add: nth_append)
qed

text \<open>
  C5. \<^verbatim>\<open>is_closed()\<close> is true if and only if the contour has at least three segments
  and, for every index \<^verbatim>\<open>i\<close> of the segment list, the position of the end point of
  segment \<^verbatim>\<open>i\<close> has the same coordinates as the position of the start point of the
  next segment, the next of the last one being the first (index \<^verbatim>\<open>(i + 1) mod n\<close>);
  and a contour of fewer than three segments is not closed. The two sentences of the
  spec are read together: the chain condition decides among the contours of three or
  more segments, the others are never closed.
\<close>

theorem is_closed_iff_cyclic_chain:
  "(is_closed c \<longleftrightarrow>
      3 \<le> length (segment_list c) \<and>
      (\<forall>i<length (segment_list c).
          coordinates (position (end_point (segment_list c ! i))) =
          coordinates (position (start_point
             (segment_list c ! (Suc i mod length (segment_list c))))))) \<and>
   (length (segment_list c) < 3 \<longrightarrow> \<not> is_closed c)"
proof (cases "segment_list c")
  case Nil
  then show ?thesis by (simp add: is_closed_def)
next
  case (Cons first rest)
  have "closed_walk first (segment_list c) \<longleftrightarrow>
      (\<forall>i<length (segment_list c).
          vector_eq (position (end_point (segment_list c ! i)))
                    (position (start_point ((segment_list c @ [first]) ! Suc i))))"
    using Cons by (intro closed_walk_nth) simp
  also have "\<dots> \<longleftrightarrow>
      (\<forall>i<length (segment_list c).
          coordinates (position (end_point (segment_list c ! i))) =
          coordinates (position (start_point
             (segment_list c ! (Suc i mod length (segment_list c))))))"
    using wrap_nth [OF Cons] by (simp add: vector_eq_def)
  finally have walk: "closed_walk first (segment_list c) \<longleftrightarrow>
      (\<forall>i<length (segment_list c).
          coordinates (position (end_point (segment_list c ! i))) =
          coordinates (position (start_point
             (segment_list c ! (Suc i mod length (segment_list c))))))" .
  have "is_closed c \<longleftrightarrow> 3 \<le> length (segment_list c) \<and> closed_walk first (segment_list c)"
    using Cons by (auto simp: is_closed_def)
  with walk show ?thesis by auto
qed

text \<open>
  A triangle of three segments, with the corners of \<^verbatim>\<open>test_is_closed\<close>, is closed; a
  contour of one segment that ends where it starts is not.
\<close>

theorem is_closed_iff_cyclic_chain_witness:
  "is_closed
     \<lparr>uid = ''c'', name = '''', segment_list =
        [\<lparr>uid = ''s1'', name = '''',
          start_point = \<lparr>uid = ''p1'', name = '''', position = \<lparr>uid = ''v1'', name = '''', coordinates = [0, 1, 1 :: int]\<rparr>\<rparr>,
          end_point = \<lparr>uid = ''p2'', name = '''', position = \<lparr>uid = ''v2'', name = '''', coordinates = [0, 1, 2]\<rparr>\<rparr>\<rparr>,
         \<lparr>uid = ''s2'', name = '''',
          start_point = \<lparr>uid = ''p2'', name = '''', position = \<lparr>uid = ''v2'', name = '''', coordinates = [0, 1, 2]\<rparr>\<rparr>,
          end_point = \<lparr>uid = ''p3'', name = '''', position = \<lparr>uid = ''v3'', name = '''', coordinates = [0, 2, 2]\<rparr>\<rparr>\<rparr>,
         \<lparr>uid = ''s3'', name = '''',
          start_point = \<lparr>uid = ''p3'', name = '''', position = \<lparr>uid = ''v3'', name = '''', coordinates = [0, 2, 2]\<rparr>\<rparr>,
          end_point = \<lparr>uid = ''p1'', name = '''', position = \<lparr>uid = ''v1'', name = '''', coordinates = [0, 1, 1]\<rparr>\<rparr>\<rparr>]\<rparr> \<and>
   3 \<le> length (segment_list
     \<lparr>uid = ''c'', name = '''', segment_list =
        [\<lparr>uid = ''s1'', name = '''',
          start_point = \<lparr>uid = ''p1'', name = '''', position = \<lparr>uid = ''v1'', name = '''', coordinates = [0, 1, 1 :: int]\<rparr>\<rparr>,
          end_point = \<lparr>uid = ''p2'', name = '''', position = \<lparr>uid = ''v2'', name = '''', coordinates = [0, 1, 2]\<rparr>\<rparr>\<rparr>,
         \<lparr>uid = ''s2'', name = '''',
          start_point = \<lparr>uid = ''p2'', name = '''', position = \<lparr>uid = ''v2'', name = '''', coordinates = [0, 1, 2]\<rparr>\<rparr>,
          end_point = \<lparr>uid = ''p3'', name = '''', position = \<lparr>uid = ''v3'', name = '''', coordinates = [0, 2, 2]\<rparr>\<rparr>\<rparr>,
         \<lparr>uid = ''s3'', name = '''',
          start_point = \<lparr>uid = ''p3'', name = '''', position = \<lparr>uid = ''v3'', name = '''', coordinates = [0, 2, 2]\<rparr>\<rparr>,
          end_point = \<lparr>uid = ''p1'', name = '''', position = \<lparr>uid = ''v1'', name = '''', coordinates = [0, 1, 1]\<rparr>\<rparr>\<rparr>]\<rparr>) \<and>
   \<not> is_closed
     \<lparr>uid = ''c'', name = '''', segment_list =
        [\<lparr>uid = ''s1'', name = '''',
          start_point = \<lparr>uid = ''p1'', name = '''', position = \<lparr>uid = ''v1'', name = '''', coordinates = [0, 1, 1 :: int]\<rparr>\<rparr>,
          end_point = \<lparr>uid = ''p1'', name = '''', position = \<lparr>uid = ''v1'', name = '''', coordinates = [0, 1, 1]\<rparr>\<rparr>\<rparr>]\<rparr>"
proof (intro conjI)
  show h: "is_closed
     \<lparr>uid = ''c'', name = '''', segment_list =
        [\<lparr>uid = ''s1'', name = '''',
          start_point = \<lparr>uid = ''p1'', name = '''', position = \<lparr>uid = ''v1'', name = '''', coordinates = [0, 1, 1 :: int]\<rparr>\<rparr>,
          end_point = \<lparr>uid = ''p2'', name = '''', position = \<lparr>uid = ''v2'', name = '''', coordinates = [0, 1, 2]\<rparr>\<rparr>\<rparr>,
         \<lparr>uid = ''s2'', name = '''',
          start_point = \<lparr>uid = ''p2'', name = '''', position = \<lparr>uid = ''v2'', name = '''', coordinates = [0, 1, 2]\<rparr>\<rparr>,
          end_point = \<lparr>uid = ''p3'', name = '''', position = \<lparr>uid = ''v3'', name = '''', coordinates = [0, 2, 2]\<rparr>\<rparr>\<rparr>,
         \<lparr>uid = ''s3'', name = '''',
          start_point = \<lparr>uid = ''p3'', name = '''', position = \<lparr>uid = ''v3'', name = '''', coordinates = [0, 2, 2]\<rparr>\<rparr>,
          end_point = \<lparr>uid = ''p1'', name = '''', position = \<lparr>uid = ''v1'', name = '''', coordinates = [0, 1, 1]\<rparr>\<rparr>\<rparr>]\<rparr>"
    by (simp add: is_closed_def vector_eq_def)
  from is_closed_iff_cyclic_chain [THEN conjunct1, THEN iffD1, OF h]
  show "3 \<le> length (segment_list
     \<lparr>uid = ''c'', name = '''', segment_list =
        [\<lparr>uid = ''s1'', name = '''',
          start_point = \<lparr>uid = ''p1'', name = '''', position = \<lparr>uid = ''v1'', name = '''', coordinates = [0, 1, 1 :: int]\<rparr>\<rparr>,
          end_point = \<lparr>uid = ''p2'', name = '''', position = \<lparr>uid = ''v2'', name = '''', coordinates = [0, 1, 2]\<rparr>\<rparr>\<rparr>,
         \<lparr>uid = ''s2'', name = '''',
          start_point = \<lparr>uid = ''p2'', name = '''', position = \<lparr>uid = ''v2'', name = '''', coordinates = [0, 1, 2]\<rparr>\<rparr>,
          end_point = \<lparr>uid = ''p3'', name = '''', position = \<lparr>uid = ''v3'', name = '''', coordinates = [0, 2, 2]\<rparr>\<rparr>\<rparr>,
         \<lparr>uid = ''s3'', name = '''',
          start_point = \<lparr>uid = ''p3'', name = '''', position = \<lparr>uid = ''v3'', name = '''', coordinates = [0, 2, 2]\<rparr>\<rparr>,
          end_point = \<lparr>uid = ''p1'', name = '''', position = \<lparr>uid = ''v1'', name = '''', coordinates = [0, 1, 1]\<rparr>\<rparr>\<rparr>]\<rparr>)"
    by (rule conjunct1)
  show "\<not> is_closed
     \<lparr>uid = ''c'', name = '''', segment_list =
        [\<lparr>uid = ''s1'', name = '''',
          start_point = \<lparr>uid = ''p1'', name = '''', position = \<lparr>uid = ''v1'', name = '''', coordinates = [0, 1, 1 :: int]\<rparr>\<rparr>,
          end_point = \<lparr>uid = ''p1'', name = '''', position = \<lparr>uid = ''v1'', name = '''', coordinates = [0, 1, 1]\<rparr>\<rparr>\<rparr>]\<rparr>"
    by (rule is_closed_iff_cyclic_chain [THEN conjunct2, THEN mp]) simp
qed

end
